theory Spec2Isabelle
  imports Main "HOL-Library.Word"
begin

section \<open>Common types\<close>

type_synonym bytes = "8 word list"
type_synonym int64 = "64 word"

section \<open>middleware: flusherDelegator\<close>

text \<open>
  The delegator wraps an \<open>http.ResponseWriter\<close>. Calls that leave the delegator (the two
  measure callbacks and the calls delegated to the wrapped writer) are recorded, in order,
  in a trace. A callback field is modelled by whether it is non-nil; its invocations are
  the trace events. Go's \<open>int\<close> is taken at 64 bits.
\<close>

datatype event =
    AtWriteHeaderFunc int64
  | AtTimeToFirstByteFunc int64
  | RW_WriteHeader int64
  | RW_Write bytes
  | RW_Flush

record flusherDelegator =
  atWriteHeaderFunc_set :: bool
  atTimeToFirstByteFunc_set :: bool
  rw_is_Flusher :: bool
  status :: int64
  written :: int64
  wroteHeader :: bool
  observedTimeToFirstByte :: bool

type_synonym fd_world = "flusherDelegator \<times> event list"

definition StatusOK :: int64 where
  "StatusOK = 200"

text \<open>\<open>func (f *flusherDelegator) WriteHeader(code int)\<close>\<close>

definition WriteHeader :: "int64 \<Rightarrow> fd_world \<Rightarrow> fd_world" where
  "WriteHeader code w =
     (case w of (f, tr) \<Rightarrow>
        let tr1 = (if atWriteHeaderFunc_set f \<and> \<not> wroteHeader f
                   then tr @ [AtWriteHeaderFunc code] else tr)
        in (f\<lparr>status := code, wroteHeader := True\<rparr>, tr1 @ [RW_WriteHeader code]))"

text \<open>
  \<open>func (f *flusherDelegator) Write(b []byte) (int, error)\<close>. The pair \<open>(n, err)\<close> the
  wrapped writer returns is an input of the model; the method returns it unchanged.
\<close>

definition Write :: "bytes \<Rightarrow> int64 \<times> string option \<Rightarrow> fd_world
    \<Rightarrow> (int64 \<times> string option) \<times> fd_world" where
  "Write b res w =
     (let w1 = (if \<not> wroteHeader (fst w) then WriteHeader StatusOK w else w);
          f1 = fst w1;
          tr2 = snd w1 @ [RW_Write b];
          w3 = (if atTimeToFirstByteFunc_set f1 \<and> \<not> observedTimeToFirstByte f1
                then (f1\<lparr>observedTimeToFirstByte := True\<rparr>,
                      tr2 @ [AtTimeToFirstByteFunc (status f1)])
                else (f1, tr2))
      in (res, ((fst w3)\<lparr>written := written (fst w3) + fst res\<rparr>, snd w3)))"

text \<open>
  \<open>func (f flusherDelegator) Flush()\<close>. The receiver is a value: the method works on a
  copy of the struct, so the \<open>WriteHeader\<close> it calls updates \<open>status\<close> and
  \<open>wroteHeader\<close> of the copy, and the caller's delegator keeps its fields. The callback
  and the wrapped writer are reached through the copy all the same, so their events are
  in the trace. The type assertion \<open>f.ResponseWriter.(http.Flusher)\<close> panics when the
  wrapped writer is no \<open>http.Flusher\<close>; the trace up to the panic is kept.
\<close>

datatype panic = InterfaceConversionPanic

definition Flush :: "fd_world \<Rightarrow> (panic \<times> fd_world) + fd_world" where
  "Flush w =
     (let f = fst w;
          wcopy = (if \<not> wroteHeader f then WriteHeader StatusOK w else w)
      in if rw_is_Flusher f then Inr (f, snd wcopy @ [RW_Flush])
         else Inl (InterfaceConversionPanic, (f, snd wcopy)))"

datatype call =
    CallWriteHeader int64
  | CallWrite bytes "int64 \<times> string option"
  | CallFlush

fun step :: "call \<Rightarrow> fd_world \<Rightarrow> (panic \<times> fd_world) + fd_world" where
  "step (CallWriteHeader code) w = Inr (WriteHeader code w)"
| "step (CallWrite b res) w = Inr (snd (Write b res w))"
| "step CallFlush w = Flush w"

fun run :: "call list \<Rightarrow> fd_world \<Rightarrow> (panic \<times> fd_world) + fd_world" where
  "run [] w = Inr w"
| "run (c # cs) w = (case step c w of Inl p \<Rightarrow> Inl p | Inr w' \<Rightarrow> run cs w')"

definition new_flusherDelegator :: "bool \<Rightarrow> bool \<Rightarrow> bool \<Rightarrow> flusherDelegator" where
  "new_flusherDelegator wh ttfb fl =
     \<lparr>atWriteHeaderFunc_set = wh, atTimeToFirstByteFunc_set = ttfb, rw_is_Flusher = fl,
      status = 0, written = 0, wroteHeader = False, observedTimeToFirstByte = False\<rparr>"

text \<open>
  What the theorems count and keep: the invocations of each callback in a trace, the sum
  of the byte counts the wrapped writer returned to \<open>Write\<close>, the world a run ends in
  (also when it ends in a panic), and the two invariants that tie each callback's count
  to its flag.
\<close>

definition count_AtWriteHeaderFunc :: "event list \<Rightarrow> nat" where
  "count_AtWriteHeaderFunc tr =
     length (filter (\<lambda>e. case e of AtWriteHeaderFunc _ \<Rightarrow> True | _ \<Rightarrow> False) tr)"

definition count_AtTimeToFirstByteFunc :: "event list \<Rightarrow> nat" where
  "count_AtTimeToFirstByteFunc tr =
     length (filter (\<lambda>e. case e of AtTimeToFirstByteFunc _ \<Rightarrow> True | _ \<Rightarrow> False) tr)"

fun returned_by_Write :: "call list \<Rightarrow> int64" where
  "returned_by_Write [] = 0"
| "returned_by_Write (CallWrite b res # cs) = fst res + returned_by_Write cs"
| "returned_by_Write (c # cs) = returned_by_Write cs"

fun final_world :: "(panic \<times> fd_world) + fd_world \<Rightarrow> fd_world" where
  "final_world (Inl (p, w)) = w"
| "final_world (Inr w) = w"

definition ttfb_inv :: "fd_world \<Rightarrow> bool" where
  "ttfb_inv w = (if observedTimeToFirstByte (fst w) then count_AtTimeToFirstByteFunc (snd w) \<le> 1
                 else count_AtTimeToFirstByteFunc (snd w) = 0)"

definition header_inv :: "fd_world \<Rightarrow> bool" where
  "header_inv w = (if wroteHeader (fst w) then count_AtWriteHeaderFunc (snd w) \<le> 1
                   else count_AtWriteHeaderFunc (snd w) = 0)"

section \<open>badgerauth: records, log and the database handle\<close>

text \<open>
  \<open>admin.go\<close> calls into the \<open>pb\<close>, \<open>authdb\<close> and \<open>badgerauth\<close> packages of the
  repository for the record type, the key hash, the error mapping and the two database
  methods \<open>updateRecord\<close> and \<open>deleteRecord\<close>. Their sources are not part of the files
  verified here; each is modelled from the specification and marked so.
\<close>

type_synonym KeyHash = bytes
type_synonym NodeID = bytes

text \<open>Modelled from the spec: the \<open>State\<close> enumeration of a Record (section 3).\<close>

datatype State = Live | Invalidated | Unpublished | Tombstoned

text \<open>
  Modelled from the spec: \<open>pb.Record\<close>, the stored value bound to a KeyHash, with the
  fields of section 3. \<open>admin.go\<close> assigns \<open>InvalidatedAtUnix\<close>, \<open>InvalidationReason\<close>
  and \<open>Public\<close>.
\<close>

record Record =
  CreatedAtUnix :: int64
  Public :: bool
  SatelliteAddress :: string
  MacaroonHead :: bytes
  EncryptedSecretKey :: bytes
  EncryptedAccessGrant :: bytes
  ExpiresAtUnix :: int64
  InvalidatedAtUnix :: int64
  InvalidationReason :: string
  State :: State

datatype Operation = Put | Invalidate | Unpublish | Delete

text \<open>
  Modelled from the spec: \<open>RecordDelta\<close> (section 3), the full Record for a Put, otherwise
  the fields to merge. The two closures \<open>admin.go\<close> hands to \<open>updateRecord\<close> are the
  constructors \<open>InvalidateFn\<close> (the closure's captured \<open>time.Now().Unix()\<close> and
  \<open>req.Reason\<close>) and \<open>UnpublishFn\<close>; \<open>call_fn\<close> is what each closure does to the
  record it is given.
\<close>

datatype RecordDelta =
    FullRecord Record
  | InvalidateFn int64 string
  | UnpublishFn
  | NoFields

fun call_fn :: "RecordDelta \<Rightarrow> Record \<Rightarrow> Record" where
  "call_fn (InvalidateFn now reason) record =
     record\<lparr>InvalidatedAtUnix := now, InvalidationReason := reason\<rparr>"
| "call_fn UnpublishFn record = record\<lparr>Public := False\<rparr>"
| "call_fn (FullRecord r) record = record"
| "call_fn NoFields record = record"

fun Operation_of :: "RecordDelta \<Rightarrow> Operation" where
  "Operation_of (FullRecord r) = Put"
| "Operation_of (InvalidateFn now reason) = Invalidate"
| "Operation_of UnpublishFn = Unpublish"
| "Operation_of NoFields = Delete"

text \<open>Modelled from the spec: \<open>LogEntry\<close> (section 3), one mutation event.\<close>

record LogEntry =
  NodeID :: NodeID
  Clock :: "64 word"
  KeyHash :: KeyHash
  Operation :: Operation
  RecordDelta :: RecordDelta
  Signature :: bytes

text \<open>
  The database handle \<open>*DB\<close>: the node's ID (\<open>db.config.ID\<close>), the record rows, the
  node's log, its clock, and the node's signing function (the canonical serialisation
  of an entry's fields before \<open>Signature\<close>, signed with the node's private key).
\<close>

type_synonym unsigned_entry = "NodeID \<times> 64 word \<times> KeyHash \<times> Operation \<times> RecordDelta"

record DB =
  config_ID :: NodeID
  records :: "KeyHash \<rightharpoonup> Record"
  log :: "LogEntry list"
  clock :: "64 word"
  sign :: "unsigned_entry \<Rightarrow> bytes"

text \<open>
  Modelled from the spec: the merge of a delta into the row of its KeyHash. A Put writes
  a row only where there is none (section 4.5). An update stores the row as its closure
  leaves it: \<open>updateRecord\<close> is handed nothing but the closure, and the closures of
  \<open>admin.go\<close> assign no \<open>State\<close>. A Delete leaves a tombstone, the row with \<open>State\<close>
  Tombstoned (section 3).
\<close>

fun merge :: "RecordDelta \<Rightarrow> Record option \<Rightarrow> Record option" where
  "merge (FullRecord r) None = Some r"
| "merge (FullRecord r) (Some old) = Some old"
| "merge delta None = None"
| "merge NoFields (Some old) = Some (old\<lparr>State := Tombstoned\<rparr>)"
| "merge delta (Some old) = Some (call_fn delta old)"

text \<open>
  Modelled from the spec: \<open>Append(op, keyHash, delta)\<close> of the Log (section 4.4) assigns
  the next clock value (section 4.2: the current value plus one), signs, and writes the
  LogEntry and the resulting record mutation in one batch.
\<close>

definition mk_entry :: "DB \<Rightarrow> 64 word \<Rightarrow> KeyHash \<Rightarrow> Operation \<Rightarrow> RecordDelta \<Rightarrow> LogEntry" where
  "mk_entry db c keyHash op delta =
     \<lparr>NodeID = config_ID db, Clock = c, KeyHash = keyHash, Operation = op,
      RecordDelta = delta, Signature = sign db (config_ID db, c, keyHash, op, delta)\<rparr>"

definition Append :: "Operation \<Rightarrow> KeyHash \<Rightarrow> RecordDelta \<Rightarrow> DB \<Rightarrow> DB" where
  "Append op keyHash delta db =
     (let c = clock db + 1
      in db\<lparr>records := (records db)(keyHash := merge delta (records db keyHash)),
            log := log db @ [mk_entry db c keyHash op delta],
            clock := c\<rparr>)"

subsection \<open>Errors\<close>

text \<open>
  \<open>rpcstatus.Error(code, msg)\<close> of the RPC library is \<open>RPCStatusError code msg\<close>; the other
  constructors are the errors of the store.
\<close>

datatype StatusCode = InvalidArgument | NotFound | Internal

datatype error =
    RPCStatusError StatusCode string
  | KeyHashError string
  | ErrNotFound

text \<open>
  Modelled from the spec: \<open>authdb.KeyHash.SetBytes\<close>. A KeyHash is a 32-byte value
  (section 3); a key of another length is a validation error (section 7).
\<close>

definition SetBytes :: "bytes \<Rightarrow> error + KeyHash" where
  "SetBytes v = (if length v = 32 then Inr v else Inl (KeyHashError ''wrong length''))"

text \<open>
  Modelled from the spec: \<open>errToRPCStatusErr\<close>. A nil error stays nil; a validation error
  (KeyHash of the wrong length) is returned as \<open>InvalidArgument\<close>; a missing record as
  \<open>NotFound\<close> (section 7).
\<close>

fun errToRPCStatusErr :: "error option \<Rightarrow> error option" where
  "errToRPCStatusErr None = None"
| "errToRPCStatusErr (Some (KeyHashError m)) = Some (RPCStatusError InvalidArgument m)"
| "errToRPCStatusErr (Some ErrNotFound) = Some (RPCStatusError NotFound ''not found'')"
| "errToRPCStatusErr (Some (RPCStatusError c m)) = Some (RPCStatusError c m)"

text \<open>
  Modelled from the spec: \<open>DB.updateRecord(ctx, keyHash, fn)\<close> and
  \<open>DB.deleteRecord(ctx, keyHash)\<close>. Each mutation goes through the Log (section 4.7):
  \<open>updateRecord\<close> looks the row up, fails with NotFound when there is none, and otherwise
  appends the entry whose delta is \<open>fn\<close>; \<open>deleteRecord\<close> appends a Delete entry, which
  leaves a tombstone (section 3, Lifecycle).
\<close>

definition updateRecord :: "DB \<Rightarrow> KeyHash \<Rightarrow> RecordDelta \<Rightarrow> error option \<times> DB" where
  "updateRecord db keyHash fn =
     (case records db keyHash of
        None \<Rightarrow> (Some ErrNotFound, db)
      | Some record \<Rightarrow> (None, Append (Operation_of fn) keyHash fn db))"

definition deleteRecord :: "DB \<Rightarrow> KeyHash \<Rightarrow> error option \<times> DB" where
  "deleteRecord db keyHash = (None, Append Delete keyHash NoFields db)"

section \<open>badgerauth: Admin\<close>

text \<open>
  The three RPC methods of \<open>Admin\<close>. A method returns the pair (response, error) of the
  Go function, where the response pointer is \<open>None\<close> for nil, and the database after the
  call. \<open>now\<close> is the reading \<open>time.Now().Unix()\<close> of the wall clock. The tracing span
  each method opens and closes has no part in the result and is left out.
\<close>

record InvalidateRecordRequest =
  Key :: bytes
  Reason :: string

datatype InvalidateRecordResponse = InvalidateRecordResponse
datatype UnpublishRecordResponse = UnpublishRecordResponse
datatype DeleteRecordResponse = DeleteRecordResponse

definition InvalidateRecord :: "int64 \<Rightarrow> InvalidateRecordRequest \<Rightarrow> DB
    \<Rightarrow> (InvalidateRecordResponse option \<times> error option) \<times> DB" where
  "InvalidateRecord now req db =
     (if Reason req = [] then
        ((None, Some (RPCStatusError InvalidArgument ''missing reason'')), db)
      else
        case SetBytes (Key req) of
          Inl err \<Rightarrow> ((None, errToRPCStatusErr (Some err)), db)
        | Inr keyHash \<Rightarrow>
            (case updateRecord db keyHash (InvalidateFn now (Reason req)) of
               (err, db') \<Rightarrow> ((Some InvalidateRecordResponse, errToRPCStatusErr err), db')))"

text \<open>\<open>UnpublishRecordRequest\<close> and \<open>DeleteRecordRequest\<close> carry the key only.\<close>

definition UnpublishRecord :: "bytes \<Rightarrow> DB
    \<Rightarrow> (UnpublishRecordResponse option \<times> error option) \<times> DB" where
  "UnpublishRecord req_Key db =
     (case SetBytes req_Key of
        Inl err \<Rightarrow> ((None, errToRPCStatusErr (Some err)), db)
      | Inr keyHash \<Rightarrow>
          (case updateRecord db keyHash UnpublishFn of
             (err, db') \<Rightarrow> ((Some UnpublishRecordResponse, errToRPCStatusErr err), db')))"

definition DeleteRecord :: "bytes \<Rightarrow> DB
    \<Rightarrow> (DeleteRecordResponse option \<times> error option) \<times> DB" where
  "DeleteRecord req_Key db =
     (case SetBytes req_Key of
        Inl err \<Rightarrow> ((None, errToRPCStatusErr (Some err)), db)
      | Inr keyHash \<Rightarrow>
          (case deleteRecord db keyHash of
             (err, db') \<Rightarrow> ((Some DeleteRecordResponse, errToRPCStatusErr err), db')))"

section \<open>Go library functions used by the backup\<close>

subsection \<open>Errors and error classes\<close>

text \<open>
  Go errors as the backup and \<open>OpenKV\<close> build them: an error of a collaborator,
  \<open>fmt.Errorf\<close> with a wrapped error, \<open>errs.New\<close> with one formatted argument, and an
  error put into a class of \<open>github.com/zeebo/errs\<close>.
\<close>

datatype goerror =
    External string
  | Errorf string goerror
  | errs_New string string
  | ClassError string goerror

text \<open>\<open>Class.Has\<close>: the error, or an error it wraps, is of the class.\<close>

fun Class_Has :: "string \<Rightarrow> goerror \<Rightarrow> bool" where
  "Class_Has c (External m) = False"
| "Class_Has c (Errorf fmt e) = Class_Has c e"
| "Class_Has c (errs_New fmt a) = False"
| "Class_Has c (ClassError c' e) = (c' = c \<or> Class_Has c e)"

text \<open>
  \<open>Class.Wrap\<close> returns nil for nil, the error itself when its outermost class is the
  class already, and the error put into the class otherwise. \<open>Class.New\<close> puts
  \<open>fmt.Errorf(format, err)\<close> into the class.
\<close>

fun Class_Wrap :: "string \<Rightarrow> goerror option \<Rightarrow> goerror option" where
  "Class_Wrap c None = None"
| "Class_Wrap c (Some (ClassError c' e)) =
     (if c' = c then Some (ClassError c' e) else Some (ClassError c (ClassError c' e)))"
| "Class_Wrap c (Some e) = Some (ClassError c e)"

definition Class_New :: "string \<Rightarrow> string \<Rightarrow> goerror \<Rightarrow> goerror" where
  "Class_New c fmt err = ClassError c (Errorf fmt err)"

subsection \<open>\<open>path.Join\<close> and \<open>path.Clean\<close>\<close>

text \<open>
  A path is split at every slash; \<open>join_slash\<close> puts the pieces together again.
\<close>

fun split_slash :: "string \<Rightarrow> string list" where
  "split_slash [] = [[]]"
| "split_slash (c # cs) =
     (if c = CHR ''/'' then [] # split_slash cs
      else (case split_slash cs of [] \<Rightarrow> [[c]] | x # xs \<Rightarrow> (c # x) # xs))"

fun join_slash :: "string list \<Rightarrow> string" where
  "join_slash [] = []"
| "join_slash [x] = x"
| "join_slash (x # y # ys) = x @ CHR ''/'' # join_slash (y # ys)"

text \<open>
  \<open>path.Clean\<close>, by its rules: runs of slashes count as one, a \<open>.\<close> element is dropped, an
  inner \<open>..\<close> element is dropped together with the element before it, a \<open>..\<close> at the
  start of a rooted path is dropped and at the start of any other path it is kept; the
  empty result is \<open>.\<close>. \<open>out\<close> is the list of elements written so far.
\<close>

definition Clean_step :: "bool \<Rightarrow> string list \<Rightarrow> string \<Rightarrow> string list" where
  "Clean_step rooted out c =
     (if c = [] \<or> c = ''.'' then out
      else if c = ''..'' then
        (if out \<noteq> [] \<and> last out \<noteq> ''..'' then butlast out
         else if rooted then out
         else out @ [''..''])
      else out @ [c])"

definition Clean :: "string \<Rightarrow> string" where
  "Clean path =
     (case path of
        [] \<Rightarrow> ''.''
      | c # cs \<Rightarrow>
          let rooted = (c = CHR ''/'');
              out = foldl (Clean_step rooted) [] (split_slash path)
          in if rooted then CHR ''/'' # join_slash out
             else if out = [] then ''.''
             else join_slash out)"

text \<open>
  \<open>path.Join\<close>: the empty string when every element is empty; otherwise the elements
  from the first non-empty one on, separated by slashes, and cleaned.
\<close>

fun Join_buf :: "string \<Rightarrow> string list \<Rightarrow> string" where
  "Join_buf buf [] = buf"
| "Join_buf buf (e # es) =
     Join_buf (if buf \<noteq> [] \<or> e \<noteq> []
               then (if buf \<noteq> [] then buf @ ''/'' else buf) @ e
               else buf) es"

definition path_Join :: "string list \<Rightarrow> string" where
  "path_Join elem = (if concat elem = [] then [] else Clean (Join_buf [] elem))"

subsection \<open>\<open>time.Time.Format\<close>\<close>

text \<open>
  \<open>t\<close> is the reading \<open>time.Now().UTC()\<close>, as the civil date and time of day in UTC.
  \<open>appendInt x width\<close> writes \<open>x\<close> in decimal, padded with zeros to the width. The two
  layouts of the backup are \<open>2006/01/02\<close> and \<open>time.RFC3339\<close>
  (\<open>2006-01-02T15:04:05Z07:00\<close>, whose zone is \<open>Z\<close> in UTC).
\<close>

record Time =
  Year :: nat
  Month :: nat
  Day :: nat
  Hour :: nat
  Minute :: nat
  Second :: nat

definition digit :: "nat \<Rightarrow> char" where
  "digit d = ''0123456789'' ! (d mod 10)"

function decimal :: "nat \<Rightarrow> string" where
  "decimal n = (if n < 10 then [digit n] else decimal (n div 10) @ [digit (n mod 10)])"
  by pat_completeness auto
termination
  by (relation "measure id") auto

declare decimal.simps [simp del]

definition appendInt :: "nat \<Rightarrow> nat \<Rightarrow> string" where
  "appendInt x width = replicate (width - length (decimal x)) CHR ''0'' @ decimal x"

definition Format_2006_01_02 :: "Time \<Rightarrow> string" where
  "Format_2006_01_02 t =
     appendInt (Year t) 4 @ ''/'' @ appendInt (Month t) 2 @ ''/'' @ appendInt (Day t) 2"

definition Format_RFC3339 :: "Time \<Rightarrow> string" where
  "Format_RFC3339 t =
     appendInt (Year t) 4 @ ''-'' @ appendInt (Month t) 2 @ ''-'' @ appendInt (Day t) 2 @ ''T''
     @ appendInt (Hour t) 2 @ '':'' @ appendInt (Minute t) 2 @ '':'' @ appendInt (Second t) 2
     @ ''Z''"

section \<open>badgerauth: Backup\<close>

definition BackupError :: string where
  "BackupError = ''backup''"

text \<open>
  What a \<open>PutObject\<close> call does with the reader it is given: it returns, with its error,
  or it reads the next byte and goes on, either with the byte or, at the closed pipe,
  with the error the write side was closed with (\<open>None\<close> for \<open>io.EOF\<close>).
\<close>

datatype PutObject_run =
    Return "goerror option"
  | Read "8 word \<Rightarrow> PutObject_run" "goerror option \<Rightarrow> PutObject_run"

record PutObject_args =
  bucketName :: string
  objectName :: string
  objectSize :: int64

text \<open>
  \<open>io.Pipe\<close> has no buffer: a write returns only when its bytes have been read, and
  nothing in \<open>RunOnce\<close> closes the read side. \<open>io_Pipe run data err\<close> lets \<open>run\<close> read
  from a pipe whose writer writes \<open>data\<close> and then closes the write side with \<open>err\<close>. It
  gives the error \<open>run\<close> returns, and whether the writer got to the end of its data (it
  stays blocked in its write when \<open>run\<close> returns before having read all of it).
  \<open>read_closed\<close> is \<open>run\<close> at the closed pipe, where every read gives the close error.
\<close>

primrec read_closed :: "PutObject_run \<Rightarrow> goerror option \<Rightarrow> goerror option" where
  "read_closed (Return e) = (\<lambda>closed. e)"
| "read_closed (Read kb kc) = (\<lambda>closed. read_closed (kc closed) closed)"

primrec io_Pipe :: "PutObject_run \<Rightarrow> bytes \<Rightarrow> goerror option \<Rightarrow> goerror option \<times> bool" where
  "io_Pipe (Return e) = (\<lambda>data err. (e, data = []))"
| "io_Pipe (Read kb kc) =
     (\<lambda>data err. case data of
                    [] \<Rightarrow> (read_closed (kc err) err, True)
                  | x # xs \<Rightarrow> io_Pipe (kb x) xs err)"

text \<open>
  \<open>BackupConfig\<close> (the fields the backup reads) and \<open>Backup\<close>. \<open>Client\<close> is the object
  store: what its \<open>PutObject\<close> does for a call. \<open>db_ID_String\<close> is
  \<open>db.config.ID.String()\<close>.
\<close>

record BackupConfig =
  Bucket :: string
  Prefix :: string

record Backup =
  db_Backup :: BackupConfig
  Client :: "PutObject_args \<Rightarrow> PutObject_run"
  prefix :: string

definition NewBackup :: "BackupConfig \<Rightarrow> string \<Rightarrow> (PutObject_args \<Rightarrow> PutObject_run) \<Rightarrow> Backup" where
  "NewBackup db_config_Backup db_ID_String client =
     \<lparr>db_Backup = db_config_Backup, Client = client,
      prefix = path_Join [Prefix db_config_Backup, db_ID_String]\<rparr>"

text \<open>
  The goroutine of \<open>RunOnce\<close> streams the snapshot into the write side of the pipe and
  then closes it with the stream's error. \<open>stream_Backup\<close> is what \<open>stream.Backup(w, 0)\<close>
  does: the bytes it writes and the error it ends with. When all of its bytes have been
  read, the goroutine calls \<open>w.CloseWithError(err)\<close> and returns what that call returns,
  which is always nil; the result is the pair of the error the pipe is closed with and
  the goroutine's own return. Otherwise the goroutine stays blocked in \<open>stream.Backup\<close>
  and the result is \<open>None\<close>.
\<close>

definition RunOnce_goroutine :: "bool \<Rightarrow> goerror option
    \<Rightarrow> (goerror option \<times> goerror option) option" where
  "RunOnce_goroutine all_read err = (if all_read then Some (err, None) else None)"

text \<open>
  What a run does: the \<open>PutObject\<close> call it makes, the error the write side of the pipe
  is closed with (\<open>None\<close> when it is never closed), and what \<open>RunOnce\<close> returns (\<open>None\<close>
  when it does not return: \<open>group.Wait()\<close> waits for a goroutine that stays blocked).
\<close>

record RunOnce_result =
  PutObject_call :: PutObject_args
  CloseWithError_arg :: "goerror option option"
  returned :: "goerror option option"

definition RunOnce :: "Backup \<Rightarrow> Time \<Rightarrow> bytes \<times> goerror option \<Rightarrow> RunOnce_result" where
  "RunOnce b t stream_Backup =
     (let key = path_Join [prefix b, Format_2006_01_02 t, Format_RFC3339 t];
          args = \<lparr>bucketName = Bucket (db_Backup b), objectName = key, objectSize = - 1\<rparr>;
          p = io_Pipe (Client b args) (fst stream_Backup) (snd stream_Backup);
          err = fst p;
          g = RunOnce_goroutine (snd p) (snd stream_Backup)
      in \<lparr>PutObject_call = args,
          CloseWithError_arg = map_option fst g,
          returned = (case err of
                        Some e \<Rightarrow> Some (Some (Class_New BackupError ''upload object: %w'' e))
                      | None \<Rightarrow> map_option (\<lambda>r. Class_Wrap BackupError (snd r)) g)\<rparr>)"

text \<open>
  Three clients: one whose \<open>PutObject\<close> fails before it reads anything (the endpoint is
  not reachable), one that reads the pipe to its end and returns the error it read, and
  one that reads the pipe to its end and returns nil whatever it read.
\<close>

definition failing_Client :: "PutObject_args \<Rightarrow> PutObject_run" where
  "failing_Client args = Return (Some (External ''connection refused''))"

fun read_n :: "nat \<Rightarrow> (goerror option \<Rightarrow> PutObject_run) \<Rightarrow> PutObject_run" where
  "read_n 0 k = Return None"
| "read_n (Suc n) k = Read (\<lambda>byte. read_n n k) k"

definition reading_Client :: "PutObject_args \<Rightarrow> PutObject_run" where
  "reading_Client args = read_n 16 Return"

definition deaf_Client :: "PutObject_args \<Rightarrow> PutObject_run" where
  "deaf_Client args = read_n 16 (\<lambda>closed. Return None)"

section \<open>auth: OpenKV\<close>

text \<open>
  The stores \<open>OpenKV\<close> can return, and the constructors it calls. \<open>SplitConnStr\<close> gives
  the driver of a connection string (its other results are discarded by \<open>OpenKV\<close>);
  \<open>sqlauth_Open\<close> takes the connection string and the application name;
  \<open>badgerauth_New\<close> takes the node's configuration.
\<close>

datatype ('sql, 'badger, 'mig) KV =
    memauth_KV
  | sqlauth_KV 'sql
  | badgerauth_KV 'badger
  | badgerauthmigration_KV 'sql 'badger 'mig

record ('node, 'mig) Config =
  KVBackend :: string
  Node :: 'node
  NodeMigration :: 'mig
  SourceSQLAuthKVBackend :: string

record ('node, 'sql, 'badger) constructors =
  SplitConnStr :: "string \<Rightarrow> goerror + string"
  sqlauth_Open :: "string \<Rightarrow> string \<Rightarrow> goerror + 'sql"
  badgerauth_New :: "'node \<Rightarrow> goerror + 'badger"

definition OpenKV :: "('node, 'sql, 'badger) constructors \<Rightarrow> ('node, 'mig) Config
    \<Rightarrow> goerror + ('sql, 'badger, 'mig) KV" where
  "OpenKV env config =
     (case SplitConnStr env (KVBackend config) of
        Inl err \<Rightarrow> Inl err
      | Inr driver \<Rightarrow>
          if driver = ''memory'' then Inr memauth_KV
          else if driver = ''pgxcockroach'' \<or> driver = ''postgres'' \<or> driver = ''cockroach''
                  \<or> driver = ''pgx'' then
            (case sqlauth_Open env (KVBackend config) ''authservice'' of
               Inl err \<Rightarrow> Inl err
             | Inr kv \<Rightarrow> Inr (sqlauth_KV kv))
          else if driver = ''badger'' then
            (case badgerauth_New env (Node config) of
               Inl err \<Rightarrow> Inl err
             | Inr kv \<Rightarrow>
                 if SourceSQLAuthKVBackend config \<noteq> [] then
                   (case sqlauth_Open env (SourceSQLAuthKVBackend config)
                           ''authservice (sqlauth->badgerauth migration)'' of
                      Inl err \<Rightarrow> Inl err
                    | Inr src \<Rightarrow> Inr (badgerauthmigration_KV src kv (NodeMigration config)))
                 else Inr (badgerauth_KV kv))
          else Inl (errs_New ''unknown scheme: %q'' (KVBackend config)))"

section \<open>Predicates and example values used by the theorems\<close>

text \<open>
  An entry is signed by the node when its signature is the node's signing function at
  the entry's other fields. \<open>appended_entry db db' keyHash op\<close>: the log of \<open>db'\<close> is
  the log of \<open>db\<close> with one more entry at its end, of this node, with the next clock
  value, for \<open>keyHash\<close> and \<open>op\<close>, and signed.
\<close>

definition signed_by :: "DB \<Rightarrow> LogEntry \<Rightarrow> bool" where
  "signed_by db e =
     (Signature e = sign db (NodeID e, Clock e, KeyHash e, Operation e, RecordDelta e))"

definition appended_entry :: "DB \<Rightarrow> DB \<Rightarrow> KeyHash \<Rightarrow> Operation \<Rightarrow> bool" where
  "appended_entry db db' keyHash op =
     (log db' = log db @ [last (log db')]
      \<and> NodeID (last (log db')) = config_ID db
      \<and> Clock (last (log db')) = clock db + 1
      \<and> KeyHash (last (log db')) = keyHash
      \<and> Operation (last (log db')) = op
      \<and> signed_by db (last (log db')))"




definition example_key :: KeyHash where
  "example_key = replicate 32 7"

definition example_Record :: Record where
  "example_Record =
     \<lparr>CreatedAtUnix = 1650000000, Public = True, SatelliteAddress = ''us1.storj.io:7777'',
      MacaroonHead = [1, 2, 3], EncryptedSecretKey = [4, 5], EncryptedAccessGrant = [6],
      ExpiresAtUnix = 0, InvalidatedAtUnix = 0, InvalidationReason = [], State = Live\<rparr>"

definition example_DB :: DB where
  "example_DB =
     \<lparr>config_ID = [1], records = [example_key \<mapsto> example_Record], log = [], clock = 0,
      sign = (\<lambda>(n, c, k, op, d). n @ k)\<rparr>"

definition example_Time :: Time where
  "example_Time = \<lparr>Year = 2022, Month = 4, Day = 13, Hour = 3, Minute = 42, Second = 7\<rparr>"

definition example_BackupConfig :: BackupConfig where
  "example_BackupConfig = \<lparr>Bucket = ''mybucket'', Prefix = ''myprefix''\<rparr>"

definition example_SplitConnStr :: "string \<Rightarrow> goerror + string" where
  "example_SplitConnStr s =
     (let d = takeWhile (\<lambda>c. c \<noteq> CHR '':'') s
      in if take 3 (drop (length d) s) = ''://'' then Inr d
         else Inl (External ''could not parse DB URL''))"

definition example_constructors :: "(string, string, string) constructors" where
  "example_constructors =
     \<lparr>SplitConnStr = example_SplitConnStr,
      sqlauth_Open = (\<lambda>conn app. Inr (app @ '' at '' @ conn)),
      badgerauth_New = (\<lambda>node. Inr (''badger '' @ node))\<rparr>"

definition example_Config :: "string \<Rightarrow> string \<Rightarrow> (string, nat) Config" where
  "example_Config backend src =
     \<lparr>KVBackend = backend, Node = ''node1'', NodeMigration = 5, SourceSQLAuthKVBackend = src\<rparr>"

section \<open>Theorems: Admin\<close>

lemma updateRecord_stored:
  "records db keyHash = Some record \<Longrightarrow>
   updateRecord db keyHash fn = (None, Append (Operation_of fn) keyHash fn db)"
  by (simp add: updateRecord_def)

lemma Append_appended: "appended_entry db (Append op keyHash delta db) keyHash op"
  by (simp add: appended_entry_def Append_def mk_entry_def signed_by_def Let_def)

lemma SetBytes_ok: "length v = 32 \<Longrightarrow> SetBytes v = Inr v"
  by (simp add: SetBytes_def)

lemma SetBytes_bad: "length v \<noteq> 32 \<Longrightarrow> SetBytes v = Inl (KeyHashError ''wrong length'')"
  by (simp add: SetBytes_def)

text \<open>
  C1. Each of InvalidateRecord, UnpublishRecord and DeleteRecord that succeeds (returns no
  error) on a stored KeyHash goes through the Log: the node's log grows by exactly one
  entry, of this node, with the next clock value, for that KeyHash and that operation,
  and signed by the node.
\<close>

theorem admin_ops_go_through_Log:
  assumes "records db key = Some record"
  shows "(snd (fst (InvalidateRecord now \<lparr>Key = key, Reason = reason\<rparr> db)) = None
            \<longrightarrow> appended_entry db (snd (InvalidateRecord now \<lparr>Key = key, Reason = reason\<rparr> db))
                  key Invalidate)
    \<and> (snd (fst (UnpublishRecord key db)) = None
            \<longrightarrow> appended_entry db (snd (UnpublishRecord key db)) key Unpublish)
    \<and> (snd (fst (DeleteRecord key db)) = None
            \<longrightarrow> appended_entry db (snd (DeleteRecord key db)) key Delete)"
proof (cases "length key = 32")
  case True
  with assms show ?thesis
    by (simp add: InvalidateRecord_def UnpublishRecord_def DeleteRecord_def SetBytes_ok
        updateRecord_stored deleteRecord_def Append_appended)
next
  case False
  then show ?thesis
    by (simp add: InvalidateRecord_def UnpublishRecord_def DeleteRecord_def SetBytes_bad)
qed

theorem admin_ops_go_through_Log_witness:
  "records example_DB example_key = Some example_Record
   \<and> snd (fst (InvalidateRecord 1700000000 \<lparr>Key = example_key, Reason = ''abuse''\<rparr> example_DB)) = None
   \<and> appended_entry example_DB
        (snd (InvalidateRecord 1700000000 \<lparr>Key = example_key, Reason = ''abuse''\<rparr> example_DB))
        example_key Invalidate
   \<and> snd (fst (UnpublishRecord example_key example_DB)) = None
   \<and> appended_entry example_DB (snd (UnpublishRecord example_key example_DB)) example_key Unpublish
   \<and> snd (fst (DeleteRecord example_key example_DB)) = None
   \<and> appended_entry example_DB (snd (DeleteRecord example_key example_DB)) example_key Delete
   \<and> log (snd (DeleteRecord example_key example_DB)) =
       [\<lparr>NodeID = [1], Clock = 1, KeyHash = example_key, Operation = Delete,
         RecordDelta = NoFields, Signature = [1] @ example_key\<rparr>]"
proof -
  have h: "records example_DB example_key = Some example_Record" by (simp add: example_DB_def)
  have l: "length example_key = 32" by (simp add: example_key_def)
  have s1: "snd (fst (InvalidateRecord 1700000000 \<lparr>Key = example_key, Reason = ''abuse''\<rparr> example_DB)) = None"
    using h l by (simp add: InvalidateRecord_def SetBytes_ok updateRecord_stored)
  have s2: "snd (fst (UnpublishRecord example_key example_DB)) = None"
    using h l by (simp add: UnpublishRecord_def SetBytes_ok updateRecord_stored)
  have s3: "snd (fst (DeleteRecord example_key example_DB)) = None"
    using h l by (simp add: DeleteRecord_def SetBytes_ok deleteRecord_def)
  have e: "log (snd (DeleteRecord example_key example_DB)) =
       [\<lparr>NodeID = [1], Clock = 1, KeyHash = example_key, Operation = Delete,
         RecordDelta = NoFields, Signature = [1] @ example_key\<rparr>]"
    using l by (simp add: DeleteRecord_def SetBytes_ok deleteRecord_def Append_def mk_entry_def
        example_DB_def)
  show ?thesis
    using admin_ops_go_through_Log [OF h, of 1700000000 "''abuse''"] h s1 s2 s3 e by simp
qed

text \<open>
  C2. An InvalidateRecordRequest with an empty Reason is answered with the
  InvalidArgument error "missing reason", with no response, and the database is
  unchanged.
\<close>

theorem InvalidateRecord_missing_reason:
  "Reason req = [] \<Longrightarrow>
   InvalidateRecord now req db =
     ((None, Some (RPCStatusError InvalidArgument ''missing reason'')), db)"
  by (simp add: InvalidateRecord_def)

theorem InvalidateRecord_missing_reason_witness:
  "Reason \<lparr>Key = example_key, Reason = []\<rparr> = []
   \<and> InvalidateRecord 1700000000 \<lparr>Key = example_key, Reason = []\<rparr> example_DB =
       ((None, Some (RPCStatusError InvalidArgument ''missing reason'')), example_DB)
   \<and> records example_DB example_key = Some example_Record"
  using InvalidateRecord_missing_reason [of "\<lparr>Key = example_key, Reason = []\<rparr>" 1700000000 example_DB]
  by (simp add: example_DB_def)

text \<open>
  C3. With a non-empty reason and a 32-byte key whose record exists, InvalidateRecord
  succeeds, and afterwards the record's InvalidatedAtUnix is the wall-clock reading and
  its InvalidationReason is the request's Reason.
\<close>

theorem InvalidateRecord_sets_fields:
  assumes "Reason req \<noteq> []" and "length (Key req) = 32"
    and "records db (Key req) = Some record"
  shows "fst (InvalidateRecord now req db) = (Some InvalidateRecordResponse, None)
    \<and> map_option InvalidatedAtUnix (records (snd (InvalidateRecord now req db)) (Key req)) = Some now
    \<and> map_option InvalidationReason (records (snd (InvalidateRecord now req db)) (Key req))
        = Some (Reason req)"
  using assms
  by (simp add: InvalidateRecord_def SetBytes_ok updateRecord_stored Append_def Let_def)

theorem InvalidateRecord_sets_fields_witness:
  "Reason \<lparr>Key = example_key, Reason = ''abuse''\<rparr> \<noteq> []
   \<and> length (Key \<lparr>Key = example_key, Reason = ''abuse''\<rparr>) = 32
   \<and> records example_DB (Key \<lparr>Key = example_key, Reason = ''abuse''\<rparr>) = Some example_Record
   \<and> fst (InvalidateRecord 1700000000 \<lparr>Key = example_key, Reason = ''abuse''\<rparr> example_DB)
       = (Some InvalidateRecordResponse, None)
   \<and> map_option InvalidatedAtUnix
        (records (snd (InvalidateRecord 1700000000 \<lparr>Key = example_key, Reason = ''abuse''\<rparr> example_DB))
           example_key) = Some 1700000000
   \<and> map_option InvalidationReason
        (records (snd (InvalidateRecord 1700000000 \<lparr>Key = example_key, Reason = ''abuse''\<rparr> example_DB))
           example_key) = Some ''abuse''"
proof -
  let ?req = "\<lparr>Key = example_key, Reason = ''abuse''\<rparr>"
  have h1: "Reason ?req \<noteq> []" by simp
  have h2: "length (Key ?req) = 32" by (simp add: example_key_def)
  have h3: "records example_DB (Key ?req) = Some example_Record" by (simp add: example_DB_def)
  show ?thesis
    using InvalidateRecord_sets_fields [OF h1 h2 h3, of 1700000000] h1 h2 h3 by simp
qed



text \<open>
  C5. When the request's Key is not 32 bytes long, each of InvalidateRecord,
  UnpublishRecord and DeleteRecord returns an InvalidArgument error and no response,
  and the database is unchanged.
\<close>

theorem admin_invalid_key_no_mutation:
  assumes "length key \<noteq> 32"
  shows "InvalidateRecord now \<lparr>Key = key, Reason = reason\<rparr> db =
           ((None, Some (RPCStatusError InvalidArgument
                     (if reason = [] then ''missing reason'' else ''wrong length''))), db)
    \<and> UnpublishRecord key db = ((None, Some (RPCStatusError InvalidArgument ''wrong length'')), db)
    \<and> DeleteRecord key db = ((None, Some (RPCStatusError InvalidArgument ''wrong length'')), db)"
  using assms
  by (simp add: InvalidateRecord_def UnpublishRecord_def DeleteRecord_def SetBytes_bad)

theorem admin_invalid_key_no_mutation_witness:
  "length [1, 2, 3 :: 8 word] \<noteq> 32
   \<and> InvalidateRecord 1700000000 \<lparr>Key = [1, 2, 3], Reason = ''abuse''\<rparr> example_DB =
       ((None, Some (RPCStatusError InvalidArgument ''wrong length'')), example_DB)
   \<and> UnpublishRecord [1, 2, 3] example_DB =
       ((None, Some (RPCStatusError InvalidArgument ''wrong length'')), example_DB)
   \<and> DeleteRecord [1, 2, 3] example_DB =
       ((None, Some (RPCStatusError InvalidArgument ''wrong length'')), example_DB)"
proof -
  have h: "length [1, 2, 3 :: 8 word] \<noteq> 32" by simp
  show ?thesis
    using admin_invalid_key_no_mutation [OF h, of 1700000000 "''abuse''" example_DB] h by simp
qed

section \<open>Theorems: \<open>path.Clean\<close> on plain paths\<close>















subsection \<open>Decimal digits and the two time layouts\<close>












section \<open>Theorems: Backup\<close>






lemma Class_Has_Wrap: "Class_Wrap c err = Some e \<Longrightarrow> Class_Has c e"
  by (cases "(c, err)" rule: Class_Wrap.cases) (auto split: if_splits)

text \<open>
  What holds of the errors of a run: an error of \<open>PutObject\<close> is returned, at once, in
  the \<open>backup\<close> class; \<open>RunOnce\<close> returns an error only then; and every error it returns
  is of the class.
\<close>

lemma RunOnce_returns_upload_error:
  "fst (io_Pipe (Client b (PutObject_call (RunOnce b t stream_Backup)))
          (fst stream_Backup) (snd stream_Backup)) = Some e \<Longrightarrow>
   returned (RunOnce b t stream_Backup)
     = Some (Some (ClassError ''backup'' (Errorf ''upload object: %w'' e)))"
  by (simp add: RunOnce_def Let_def Class_New_def BackupError_def)

lemma RunOnce_error_is_upload_error:
  "returned (RunOnce b t stream_Backup) = Some (Some e') \<Longrightarrow>
   \<exists>e. fst (io_Pipe (Client b (PutObject_call (RunOnce b t stream_Backup)))
             (fst stream_Backup) (snd stream_Backup)) = Some e
       \<and> e' = ClassError ''backup'' (Errorf ''upload object: %w'' e)"
  by (auto simp: RunOnce_def Let_def Class_New_def BackupError_def RunOnce_goroutine_def
      split: option.splits if_splits)

lemma RunOnce_error_in_backup_class:
  "returned (RunOnce b t stream_Backup) = Some (Some e') \<Longrightarrow> Class_Has BackupError e'"
  using RunOnce_error_is_upload_error [of b t stream_Backup e']
  by (auto simp: BackupError_def)

text \<open>
  The write side of the pipe is closed, and then with the stream's error, exactly when
  \<open>PutObject\<close> has read all the stream wrote.
\<close>

lemma RunOnce_pipe_closed_iff:
  "CloseWithError_arg (RunOnce b t stream_Backup) =
     (if snd (io_Pipe (Client b (PutObject_call (RunOnce b t stream_Backup)))
                (fst stream_Backup) (snd stream_Backup))
      then Some (snd stream_Backup) else None)"
  by (simp add: RunOnce_def Let_def RunOnce_goroutine_def)

text \<open>
  A stream error reaches the caller when \<open>PutObject\<close> returns the error it read from the
  pipe; when \<open>PutObject\<close> returns nil, \<open>RunOnce\<close> returns nil as well, since the
  goroutine returns the nil of \<open>CloseWithError\<close> to the group.
\<close>

lemma RunOnce_stream_error_example:
  "returned (RunOnce (NewBackup example_BackupConfig ''mynodeid'' reading_Client)
       example_Time ([1, 2], Some (External ''stream failed'')))
     = Some (Some (ClassError ''backup''
                    (Errorf ''upload object: %w'' (External ''stream failed''))))
   \<and> CloseWithError_arg (RunOnce (NewBackup example_BackupConfig ''mynodeid'' reading_Client)
       example_Time ([1, 2], Some (External ''stream failed'')))
     = Some (Some (External ''stream failed''))
   \<and> returned (RunOnce (NewBackup example_BackupConfig ''mynodeid'' deaf_Client)
       example_Time ([1, 2], Some (External ''stream failed''))) = Some None"
  by (simp add: RunOnce_def NewBackup_def RunOnce_goroutine_def Class_New_def BackupError_def
      Let_def reading_Client_def deaf_Client_def eval_nat_numeral)

text \<open>
  C7 (code defect). The claim: every error that leaves \<open>RunOnce\<close> is of the \<open>backup\<close>
  class, and the write side of the pipe is closed with the stream's error. When
  \<open>PutObject\<close> fails before it has read what the stream writes, \<open>RunOnce\<close> returns the
  upload error in the \<open>backup\<close> class at once, without closing the read side and without
  waiting for the group: the goroutine stays blocked in its write and the write side of
  the pipe is never closed.
\<close>

theorem RunOnce_upload_error_leaves_pipe_open:
  "returned (RunOnce (NewBackup example_BackupConfig ''mynodeid'' failing_Client)
       example_Time ([1, 2], None))
     = Some (Some (ClassError ''backup''
                    (Errorf ''upload object: %w'' (External ''connection refused''))))
   \<and> CloseWithError_arg (RunOnce (NewBackup example_BackupConfig ''mynodeid'' failing_Client)
       example_Time ([1, 2], None)) = None"
  by (simp add: RunOnce_def NewBackup_def RunOnce_goroutine_def Class_New_def BackupError_def
      Let_def failing_Client_def)


section \<open>Theorems: OpenKV\<close>

lemma example_SplitConnStr_values:
  "example_SplitConnStr ''memory://'' = Inr ''memory''"
  "example_SplitConnStr ''pgx://db'' = Inr ''pgx''"
  "example_SplitConnStr ''badger://'' = Inr ''badger''"
  "example_SplitConnStr ''sqlite3://x'' = Inr ''sqlite3''"
  by (simp_all add: example_SplitConnStr_def)

text \<open>
  C9. \<open>OpenKV\<close> dispatches on the driver of the connection string: the in-memory store
  for \<open>memory\<close>; what \<open>sqlauth.Open\<close> gives for \<open>pgxcockroach\<close>, \<open>postgres\<close>,
  \<open>cockroach\<close> and \<open>pgx\<close>; for \<open>badger\<close> the badgerauth store, inside the migration
  bridge exactly when SourceSQLAuthKVBackend is not empty; for any other driver the
  "unknown scheme" error and no store. An error of a constructor is returned as it is.
\<close>

theorem OpenKV_dispatch:
  assumes "SplitConnStr env (KVBackend config) = Inr driver"
  shows "(driver = ''memory'' \<longrightarrow> OpenKV env config = Inr memauth_KV)
    \<and> (driver \<in> {''pgxcockroach'', ''postgres'', ''cockroach'', ''pgx''} \<longrightarrow>
         OpenKV env config =
           (case sqlauth_Open env (KVBackend config) ''authservice'' of
              Inl err \<Rightarrow> Inl err | Inr kv \<Rightarrow> Inr (sqlauth_KV kv)))
    \<and> (driver = ''badger'' \<longrightarrow>
         (\<forall>err. badgerauth_New env (Node config) = Inl err \<longrightarrow> OpenKV env config = Inl err)
         \<and> (\<forall>kv. badgerauth_New env (Node config) = Inr kv \<longrightarrow>
               (SourceSQLAuthKVBackend config = [] \<longrightarrow> OpenKV env config = Inr (badgerauth_KV kv))
               \<and> (SourceSQLAuthKVBackend config \<noteq> [] \<longrightarrow>
                    OpenKV env config =
                      (case sqlauth_Open env (SourceSQLAuthKVBackend config)
                              ''authservice (sqlauth->badgerauth migration)'' of
                         Inl err \<Rightarrow> Inl err
                       | Inr src \<Rightarrow> Inr (badgerauthmigration_KV src kv (NodeMigration config))))))
    \<and> (driver \<notin> {''memory'', ''pgxcockroach'', ''postgres'', ''cockroach'', ''pgx'', ''badger''} \<longrightarrow>
         OpenKV env config = Inl (errs_New ''unknown scheme: %q'' (KVBackend config)))"
  using assms by (auto simp: OpenKV_def)

theorem OpenKV_dispatch_witness:
  "SplitConnStr example_constructors (KVBackend (example_Config ''memory://'' [])) = Inr ''memory''
   \<and> OpenKV example_constructors (example_Config ''memory://'' []) = Inr memauth_KV
   \<and> SplitConnStr example_constructors (KVBackend (example_Config ''pgx://db'' [])) = Inr ''pgx''
   \<and> OpenKV example_constructors (example_Config ''pgx://db'' [])
       = Inr (sqlauth_KV ''authservice at pgx://db'')
   \<and> SplitConnStr example_constructors (KVBackend (example_Config ''badger://'' [])) = Inr ''badger''
   \<and> OpenKV example_constructors (example_Config ''badger://'' [])
       = Inr (badgerauth_KV ''badger node1'')
   \<and> OpenKV example_constructors (example_Config ''badger://'' ''pgx://old'')
       = Inr (badgerauthmigration_KV
               ''authservice (sqlauth->badgerauth migration) at pgx://old'' ''badger node1'' 5)
   \<and> SplitConnStr example_constructors (KVBackend (example_Config ''sqlite3://x'' [])) = Inr ''sqlite3''
   \<and> OpenKV example_constructors (example_Config ''sqlite3://x'' [])
       = Inl (errs_New ''unknown scheme: %q'' ''sqlite3://x'')"
proof -
  have m: "SplitConnStr example_constructors (KVBackend (example_Config ''memory://'' [])) = Inr ''memory''"
    by (simp add: example_constructors_def example_Config_def example_SplitConnStr_values)
  have p: "SplitConnStr example_constructors (KVBackend (example_Config ''pgx://db'' [])) = Inr ''pgx''"
    by (simp add: example_constructors_def example_Config_def example_SplitConnStr_values)
  have b: "SplitConnStr example_constructors (KVBackend (example_Config ''badger://'' src)) = Inr ''badger''"
    for src
    by (simp add: example_constructors_def example_Config_def example_SplitConnStr_values)
  have u: "SplitConnStr example_constructors (KVBackend (example_Config ''sqlite3://x'' [])) = Inr ''sqlite3''"
    by (simp add: example_constructors_def example_Config_def example_SplitConnStr_values)
  have 1: "OpenKV example_constructors (example_Config ''memory://'' []) = Inr memauth_KV"
    using OpenKV_dispatch [OF m] by simp
  have 2: "OpenKV example_constructors (example_Config ''pgx://db'' [])
       = Inr (sqlauth_KV ''authservice at pgx://db'')"
    using OpenKV_dispatch [OF p] by (simp add: example_constructors_def example_Config_def)
  have 3: "OpenKV example_constructors (example_Config ''badger://'' [])
       = Inr (badgerauth_KV ''badger node1'')"
    using OpenKV_dispatch [OF b [of "[]"]] by (simp add: example_constructors_def example_Config_def)
  have 4: "OpenKV example_constructors (example_Config ''badger://'' ''pgx://old'')
       = Inr (badgerauthmigration_KV
               ''authservice (sqlauth->badgerauth migration) at pgx://old'' ''badger node1'' 5)"
    using OpenKV_dispatch [OF b [of "''pgx://old''"]]
    by (simp add: example_constructors_def example_Config_def)
  have 5: "OpenKV example_constructors (example_Config ''sqlite3://x'' [])
       = Inl (errs_New ''unknown scheme: %q'' ''sqlite3://x'')"
    using OpenKV_dispatch [OF u] by (simp add: example_Config_def)
  show ?thesis using m p b [of "[]"] u 1 2 3 4 5 by simp
qed

section \<open>Theorems: flusherDelegator\<close>

text \<open>
  What holds of the delegator: atTimeToFirstByteFunc is invoked at most once over any
  sequence of calls; \<open>written\<close> grows by the sum of the counts the wrapped writer
  returned; a \<open>Write\<close> with no header written yet records status 200; and over a
  sequence without \<open>Flush\<close>, atWriteHeaderFunc is invoked at most once.
\<close>

lemma count_AtTimeToFirstByteFunc_simps:
  "count_AtTimeToFirstByteFunc [] = 0"
  "count_AtTimeToFirstByteFunc (e # tr) =
     (case e of AtTimeToFirstByteFunc _ \<Rightarrow> 1 | _ \<Rightarrow> 0) + count_AtTimeToFirstByteFunc tr"
  "count_AtTimeToFirstByteFunc (tr @ tr') =
     count_AtTimeToFirstByteFunc tr + count_AtTimeToFirstByteFunc tr'"
  by (simp_all add: count_AtTimeToFirstByteFunc_def split: event.splits)

lemma count_AtWriteHeaderFunc_simps:
  "count_AtWriteHeaderFunc [] = 0"
  "count_AtWriteHeaderFunc (e # tr) =
     (case e of AtWriteHeaderFunc _ \<Rightarrow> 1 | _ \<Rightarrow> 0) + count_AtWriteHeaderFunc tr"
  "count_AtWriteHeaderFunc (tr @ tr') = count_AtWriteHeaderFunc tr + count_AtWriteHeaderFunc tr'"
  by (simp_all add: count_AtWriteHeaderFunc_def split: event.splits)

lemma WriteHeader_fields:
  "observedTimeToFirstByte (fst (WriteHeader code w)) = observedTimeToFirstByte (fst w)"
  "written (fst (WriteHeader code w)) = written (fst w)"
  "count_AtTimeToFirstByteFunc (snd (WriteHeader code w)) = count_AtTimeToFirstByteFunc (snd w)"
  "wroteHeader (fst (WriteHeader code w))"
  by (simp_all add: WriteHeader_def count_AtTimeToFirstByteFunc_simps Let_def split: prod.splits)

lemma ttfb_inv_WriteHeader: "ttfb_inv w \<Longrightarrow> ttfb_inv (WriteHeader code w)"
  by (auto simp: ttfb_inv_def WriteHeader_fields split: if_splits)

lemma ttfb_inv_Write: "ttfb_inv w \<Longrightarrow> ttfb_inv (snd (Write b res w))"
  by (auto simp: ttfb_inv_def Write_def Let_def WriteHeader_fields
      count_AtTimeToFirstByteFunc_simps split: if_splits)

lemma ttfb_inv_Flush: "ttfb_inv w \<Longrightarrow> ttfb_inv (final_world (Flush w))"
  by (auto simp: ttfb_inv_def Flush_def Let_def WriteHeader_fields
      count_AtTimeToFirstByteFunc_simps split: if_splits)

lemma ttfb_inv_step: "ttfb_inv w \<Longrightarrow> ttfb_inv (final_world (step c w))"
  by (cases c) (simp_all add: ttfb_inv_WriteHeader ttfb_inv_Write ttfb_inv_Flush)

lemma ttfb_inv_run: "ttfb_inv w \<Longrightarrow> ttfb_inv (final_world (run cs w))"
proof (induction cs arbitrary: w)
  case Nil
  then show ?case by simp
next
  case (Cons c cs)
  show ?case
  proof (cases "step c w")
    case (Inl pw)
    then show ?thesis
      using ttfb_inv_step [OF Cons.prems, of c] by (cases pw) simp
  next
    case (Inr w')
    then show ?thesis
      using ttfb_inv_step [OF Cons.prems, of c] Cons.IH [of w'] by simp
  qed
qed

lemma atTimeToFirstByteFunc_at_most_once:
  "count_AtTimeToFirstByteFunc
     (snd (final_world (run cs (new_flusherDelegator wh ttfb fl, [])))) \<le> 1"
proof -
  have "ttfb_inv (new_flusherDelegator wh ttfb fl, [])"
    by (simp add: ttfb_inv_def new_flusherDelegator_def count_AtTimeToFirstByteFunc_def)
  from ttfb_inv_run [OF this, of cs] show ?thesis
    by (simp add: ttfb_inv_def split: if_splits)
qed

lemma written_step:
  "step c w = Inr w' \<Longrightarrow> written (fst w') = written (fst w) + returned_by_Write [c]"
  by (cases c) (auto simp: Write_def Let_def WriteHeader_fields Flush_def split: if_splits)

lemma returned_by_Write_Cons:
  "returned_by_Write (c # cs) = returned_by_Write [c] + returned_by_Write cs"
  by (cases c) simp_all

lemma written_is_sum_of_Write_counts:
  "run cs w = Inr w' \<Longrightarrow> written (fst w') = written (fst w) + returned_by_Write cs"
proof (induction cs arbitrary: w)
  case Nil
  then show ?case by simp
next
  case (Cons c cs)
  then obtain w1 where s: "step c w = Inr w1" and r: "run cs w1 = Inr w'"
    by (auto split: sum.splits)
  show ?case
    using written_step [OF s] Cons.IH [OF r] returned_by_Write_Cons [of c cs] by simp
qed

lemma header_inv_WriteHeader: "header_inv w \<Longrightarrow> header_inv (WriteHeader code w)"
  by (auto simp: header_inv_def WriteHeader_def count_AtWriteHeaderFunc_simps Let_def
      split: prod.splits if_splits)

lemma header_inv_Write: "header_inv w \<Longrightarrow> header_inv (snd (Write b res w))"
proof -
  assume h: "header_inv w"
  let ?w1 = "if \<not> wroteHeader (fst w) then WriteHeader StatusOK w else w"
  have 1: "header_inv ?w1" using h by (simp add: header_inv_WriteHeader)
  have "wroteHeader (fst (snd (Write b res w))) = wroteHeader (fst ?w1)"
    "count_AtWriteHeaderFunc (snd (snd (Write b res w))) = count_AtWriteHeaderFunc (snd ?w1)"
    by (simp_all add: Write_def Let_def count_AtWriteHeaderFunc_simps)
  then show ?thesis using 1 unfolding header_inv_def by (auto split: if_splits)
qed

lemma header_inv_step:
  "header_inv w \<Longrightarrow> c \<noteq> CallFlush \<Longrightarrow> step c w = Inr w' \<Longrightarrow> header_inv w'"
  by (cases c) (auto simp: header_inv_WriteHeader header_inv_Write)

lemma header_inv_run:
  "header_inv w \<Longrightarrow> CallFlush \<notin> set cs \<Longrightarrow> run cs w = Inr w' \<Longrightarrow> header_inv w'"
proof (induction cs arbitrary: w)
  case Nil
  then show ?case by simp
next
  case (Cons c cs)
  from Cons.prems(3) obtain w1 where s: "step c w = Inr w1" and r: "run cs w1 = Inr w'"
    by (auto split: sum.splits)
  from Cons.prems(2) have c: "c \<noteq> CallFlush" and cs: "CallFlush \<notin> set cs" by auto
  show ?case
    using Cons.IH [OF header_inv_step [OF Cons.prems(1) c s] cs r] .
qed

lemma atWriteHeaderFunc_at_most_once_without_Flush:
  assumes "CallFlush \<notin> set cs" and "run cs (new_flusherDelegator wh ttfb fl, []) = Inr w'"
  shows "count_AtWriteHeaderFunc (snd w') \<le> 1"
proof -
  have "header_inv (new_flusherDelegator wh ttfb fl, [])"
    by (simp add: header_inv_def new_flusherDelegator_def count_AtWriteHeaderFunc_def)
  from header_inv_run [OF this assms] show ?thesis
    by (simp add: header_inv_def split: if_splits)
qed

lemma Write_without_header_records_StatusOK:
  "\<not> wroteHeader (fst w) \<Longrightarrow>
   status (fst (snd (Write b res w))) = StatusOK \<and> wroteHeader (fst (snd (Write b res w)))"
  by (simp add: Write_def Let_def WriteHeader_def split: prod.splits)

text \<open>
  C10 (code defect). The claim: over any sequence of WriteHeader, Write and Flush calls,
  atWriteHeaderFunc is invoked at most once, and a Flush with no prior WriteHeader records
  status 200 through WriteHeader. The type's comment says the same ("calls
  atWriteHeaderFunc only once"). Because \<open>Flush\<close> has a value receiver, two Flush calls
  on a fresh delegator invoke atWriteHeaderFunc twice, and the delegator still holds
  status 0 and wroteHeader false afterwards.
\<close>

theorem flusherDelegator_Flush_twice_calls_atWriteHeaderFunc_twice:
  "run [CallFlush, CallFlush] (new_flusherDelegator True True True, []) =
     Inr (new_flusherDelegator True True True,
          [AtWriteHeaderFunc 200, RW_WriteHeader 200, RW_Flush,
           AtWriteHeaderFunc 200, RW_WriteHeader 200, RW_Flush])
   \<and> count_AtWriteHeaderFunc
        [AtWriteHeaderFunc 200, RW_WriteHeader 200, RW_Flush,
         AtWriteHeaderFunc 200, RW_WriteHeader 200, RW_Flush] = 2
   \<and> status (new_flusherDelegator True True True) = 0
   \<and> \<not> wroteHeader (new_flusherDelegator True True True)"
  by (simp add: new_flusherDelegator_def Flush_def WriteHeader_def StatusOK_def
      count_AtWriteHeaderFunc_def)

end
